theory Spec2Isabelle
  imports Main "HOL-Library.AList"
begin

section \<open>The subscription registry of \<open>DiscordBot\<close>\<close>

text \<open>
  \<^verbatim>\<open>private channelSubscriptions: Map<string, Set<string>> = new Map(); // channelId -> userIds\<close>

  A JavaScript \<open>Map\<close> keeps its keys in insertion order, so the registry is an
  association list with one pair per key: \<open>Map.get\<close> is \<^const>\<open>map_of\<close>,
  \<open>Map.set\<close> is \<^const>\<open>AList.update\<close> (an existing key keeps its place, a new
  key goes to the end), \<open>Map.delete\<close> is \<^const>\<open>AList.delete\<close> and
  \<open>Map.size\<close> is \<^const>\<open>length\<close>. The subscriber sets are only tested for
  membership and emptiness, never iterated, so they are HOL sets.
\<close>

type_synonym registry = "(string \<times> string set) list"

text \<open>
  \<^verbatim>\<open>
  async subscribeToChannel(channelId: string, userId: string) {
    if (!this.channelSubscriptions.has(channelId)) {
      this.channelSubscriptions.set(channelId, new Set());
    }
    this.channelSubscriptions.get(channelId)!.add(userId);
  }
  \<close>
  The set stored in the map is mutated in place by \<open>add\<close>; in the model the
  entry is rewritten with the enlarged set. The \<open>None\<close> branch stands for the
  \<open>undefined\<close> that the non-null assertion \<open>!\<close> rules out; lemma
  \<open>subscribe_get_defined\<close> shows that it is never taken.
\<close>

definition subscribeToChannel :: "registry \<Rightarrow> string \<Rightarrow> string \<Rightarrow> registry" where
  "subscribeToChannel subs channelId userId =
     (let subs1 = (if map_of subs channelId = None
                   then AList.update channelId {} subs else subs)
      in case map_of subs1 channelId of
           None \<Rightarrow> subs1
         | Some subscribers \<Rightarrow> AList.update channelId (insert userId subscribers) subs1)"

text \<open>
  \<^verbatim>\<open>
  async unsubscribeFromChannel(channelId: string, userId: string) {
    const subscribers = this.channelSubscriptions.get(channelId);
    if (subscribers) {
      subscribers.delete(userId);
      // Clean up empty subscriptions
      if (subscribers.size === 0) {
        this.channelSubscriptions.delete(channelId);
      }
    }
  }
  \<close>
\<close>

definition unsubscribeFromChannel :: "registry \<Rightarrow> string \<Rightarrow> string \<Rightarrow> registry" where
  "unsubscribeFromChannel subs channelId userId =
     (case map_of subs channelId of
        None \<Rightarrow> subs
      | Some subscribers \<Rightarrow>
          (let subscribers' = subscribers - {userId};
               subs1 = AList.update channelId subscribers' subs
           in if subscribers' = {} then AList.delete channelId subs1 else subs1))"

text \<open>
  The lookup the handlers perform, \<open>this.channelSubscriptions.get(channelId)\<close>, with
  an absent entry read as "nobody listens" (\<open>!subscribers || subscribers.size === 0\<close>
  in \<open>handleNewMessage\<close>).
\<close>

definition listSubscribers :: "registry \<Rightarrow> string \<Rightarrow> string set" where
  "listSubscribers subs channelId =
     (case map_of subs channelId of None \<Rightarrow> {} | Some subscribers \<Rightarrow> subscribers)"

text \<open>Sequences of calls on the registry, starting from any registry.\<close>

datatype registry_call =
    Subscribe string string
  | Unsubscribe string string

fun registry_step :: "registry \<Rightarrow> registry_call \<Rightarrow> registry" where
  "registry_step subs (Subscribe channelId userId) = subscribeToChannel subs channelId userId"
| "registry_step subs (Unsubscribe channelId userId) = unsubscribeFromChannel subs channelId userId"

definition run_calls :: "registry_call list \<Rightarrow> registry \<Rightarrow> registry" where
  "run_calls calls subs = foldl registry_step subs calls"

text \<open>
  The representation invariant: one pair per key (the list is a \<open>Map\<close>), and no key
  bound to the empty set.
\<close>

definition registry_inv :: "registry \<Rightarrow> bool" where
  "registry_inv subs \<longleftrightarrow> distinct (map fst subs) \<and> (\<forall>c. map_of subs c \<noteq> Some {})"

section \<open>Values thrown, dates and JavaScript defaults\<close>

text \<open>
  A thrown value, by its class. The first three are the error classes of the
  \<open>jsonwebtoken\<close> package the authenticator tests with \<open>instanceof\<close>;
  \<open>OtherError\<close> is any other thrown value (a \<open>TypeError\<close>, a \<open>RangeError\<close>, a
  rejected request of the chat platform's client), with its message.
\<close>

datatype thrown =
    JsonWebTokenError string
  | TokenExpiredError string
  | NotBeforeError string
  | OtherError string

text \<open>
  A \<open>Date\<close> is kept as its ISO-8601 rendering. \<open>toISOString\<close> of an invalid date
  throws a \<open>RangeError\<close>.
\<close>

datatype date = Date string | InvalidDate

fun toISOString :: "date \<Rightarrow> thrown + string" where
  "toISOString (Date rendering) = Inr rendering"
| "toISOString InvalidDate = Inl (OtherError ''RangeError: Invalid time value'')"

text \<open>
  \<open>a || b\<close> on an optional string and on an optional number: \<open>undefined\<close>,
  \<open>null\<close>, the empty string and \<open>0\<close> are falsy. \<open>a ?? b\<close> replaces only
  \<open>undefined\<close> and \<open>null\<close>.
\<close>

definition or_string :: "string option \<Rightarrow> string \<Rightarrow> string" where
  "or_string a b = (case a of None \<Rightarrow> b | Some s \<Rightarrow> if s = [] then b else s)"

definition or_number :: "nat option \<Rightarrow> nat \<Rightarrow> nat" where
  "or_number a b = (case a of None \<Rightarrow> b | Some n \<Rightarrow> if n = 0 then b else n)"

definition nullish_number :: "nat option \<Rightarrow> nat \<Rightarrow> nat" where
  "nullish_number a b = (case a of None \<Rightarrow> b | Some n \<Rightarrow> n)"


section \<open>Upstream messages and the wire record\<close>

text \<open>
  The parts of a \<open>discord.js\<close> \<open>Message\<close> that the bot reads. An optional
  property is an \<open>option\<close>; \<open>usr_avatarURL\<close> is the result of
  \<open>displayAvatarURL()\<close> and \<open>rea_emoji_string\<close> that of \<open>emoji.toString()\<close>.
\<close>

record raw_user =
  usr_id :: string
  usr_username :: string
  usr_displayName :: "string option"
  usr_avatarURL :: string
  usr_bot :: bool

record raw_attachment =
  att_id :: string
  att_name :: "string option"
  att_url :: string
  att_proxyURL :: string
  att_size :: nat
  att_contentType :: "string option"
  att_width :: "nat option"
  att_height :: "nat option"

record raw_embed_field =
  fld_name :: string
  fld_value :: string
  fld_inline :: "bool option"

record raw_embed_author =
  eau_name :: string
  eau_iconURL :: "string option"

record raw_embed =
  emb_title :: "string option"
  emb_description :: "string option"
  emb_url :: "string option"
  emb_color :: "nat option"
  emb_thumbnail :: "string option"
  emb_image :: "string option"
  emb_author :: "raw_embed_author option"
  emb_fields :: "raw_embed_field list option"

record raw_reaction =
  rea_emoji_name :: "string option"
  rea_emoji_string :: string
  rea_count :: nat

record message =
  msg_id :: string
  msg_content :: string
  msg_author :: raw_user
  msg_createdAt :: date
  msg_editedAt :: "date option"
  msg_channel_id :: string
  msg_guild_id :: "string option"
  msg_attachments :: "raw_attachment list"
  msg_embeds :: "raw_embed list"
  msg_reactions :: "raw_reaction list"
  msg_partial :: bool

text \<open>The record \<open>formatMessage\<close> builds (\<open>DiscordMessage\<close>), field by field.\<close>

record wire_author =
  wa_id :: string
  wa_username :: string
  wa_displayName :: string
  wa_avatar :: string
  wa_bot :: bool

record wire_attachment =
  wat_id :: string
  wat_filename :: string
  wat_url :: string
  wat_proxyUrl :: string
  wat_size :: nat
  wat_contentType :: string
  wat_width :: nat
  wat_height :: nat

record wire_field =
  wf_name :: string
  wf_value :: string
  wf_inline :: bool

record wire_embed =
  we_title :: string
  we_description :: string
  we_url :: string
  we_color :: nat
  we_thumbnail_url :: string
  we_image_url :: string
  we_author_name :: string
  we_author_iconUrl :: "string option"
  we_fields :: "wire_field list"

record wire_reaction =
  wr_emoji :: string
  wr_count :: nat
  wr_users :: "string list"

record DiscordMessage =
  dm_id :: string
  dm_content :: string
  dm_author :: wire_author
  dm_timestamp :: string
  dm_channelId :: string
  dm_serverId :: string
  dm_attachments :: "wire_attachment list"
  dm_embeds :: "wire_embed list"
  dm_reactions :: "wire_reaction list"
  dm_edited :: bool
  dm_editedTimestamp :: string

definition formatAttachment :: "raw_attachment \<Rightarrow> wire_attachment" where
  "formatAttachment att =
     \<lparr> wat_id = att_id att,
       wat_filename = or_string (att_name att) ''unknown'',
       wat_url = att_url att,
       wat_proxyUrl = att_proxyURL att,
       wat_size = att_size att,
       wat_contentType = or_string (att_contentType att) '''',
       wat_width = or_number (att_width att) 0,
       wat_height = or_number (att_height att) 0 \<rparr>"

definition formatField :: "raw_embed_field \<Rightarrow> wire_field" where
  "formatField field =
     \<lparr> wf_name = fld_name field,
       wf_value = fld_value field,
       wf_inline = (case fld_inline field of None \<Rightarrow> False | Some b \<Rightarrow> b) \<rparr>"

definition formatEmbed :: "raw_embed \<Rightarrow> wire_embed" where
  "formatEmbed raw =
     \<lparr> we_title = or_string (emb_title raw) '''',
       we_description = or_string (emb_description raw) '''',
       we_url = or_string (emb_url raw) '''',
       we_color = nullish_number (emb_color raw) 0,
       we_thumbnail_url = (case emb_thumbnail raw of None \<Rightarrow> '''' | Some u \<Rightarrow> u),
       we_image_url = (case emb_image raw of None \<Rightarrow> '''' | Some u \<Rightarrow> u),
       we_author_name = (case emb_author raw of None \<Rightarrow> '''' | Some a \<Rightarrow> eau_name a),
       we_author_iconUrl =
         (case emb_author raw of
            None \<Rightarrow> None
          | Some a \<Rightarrow> (case eau_iconURL a of
                        None \<Rightarrow> None
                      | Some u \<Rightarrow> if u = [] then None else Some u)),
       we_fields = (case emb_fields raw of None \<Rightarrow> [] | Some fs \<Rightarrow> map formatField fs) \<rparr>"

definition formatReaction :: "raw_reaction \<Rightarrow> wire_reaction" where
  "formatReaction reaction =
     \<lparr> wr_emoji = or_string (rea_emoji_name reaction) (rea_emoji_string reaction),
       wr_count = rea_count reaction,
       wr_users = [] \<rparr>"

text \<open>
  \<open>formatMessage\<close>: the only call in it that can throw on a well-typed message is
  \<open>message.createdAt.toISOString()\<close>.
\<close>

definition formatMessage :: "message \<Rightarrow> thrown + DiscordMessage" where
  "formatMessage message =
     (case toISOString (msg_createdAt message) of
        Inl e \<Rightarrow> Inl e
      | Inr timestamp \<Rightarrow>
          Inr \<lparr> dm_id = msg_id message,
                dm_content = msg_content message,
                dm_author =
                  \<lparr> wa_id = usr_id (msg_author message),
                    wa_username = usr_username (msg_author message),
                    wa_displayName = or_string (usr_displayName (msg_author message))
                                       (usr_username (msg_author message)),
                    wa_avatar = usr_avatarURL (msg_author message),
                    wa_bot = usr_bot (msg_author message) \<rparr>,
                dm_timestamp = timestamp,
                dm_channelId = msg_channel_id message,
                dm_serverId = or_string (msg_guild_id message) '''',
                dm_attachments = map formatAttachment (msg_attachments message),
                dm_embeds = map formatEmbed (msg_embeds message),
                dm_reactions = map formatReaction (msg_reactions message),
                dm_edited = False,
                dm_editedTimestamp = '''' \<rparr>)"


section \<open>Transport, session and process state\<close>

text \<open>
  The descriptor of a channel sent to clients (the object literals of
  \<open>getUserChannels\<close> and \<open>handleJoinChannel\<close>; \<open>permissions\<close> is flattened).
\<close>

record channel_descriptor =
  cd_id :: string
  cd_name :: string
  cd_type :: string
  cd_serverId :: string
  cd_serverName :: string
  cd_position :: nat
  cd_unreadCount :: nat
  cd_isActive :: bool
  cd_canRead :: bool
  cd_canWrite :: bool
  cd_canManage :: bool

text \<open>
  A call of \<open>emit\<close> on the transport: where it is addressed, the event name and the
  payload.
  \<^item> \<open>NamespaceRoom r\<close>: \<open>this.io.of('/discord').to(r).emit(...)\<close>;
  \<^item> \<open>ToSocket\<close>: \<open>this.socket.emit(...)\<close>;
  \<^item> \<open>SocketRoom r\<close>: \<open>this.socket.to(r).emit(...)\<close>, the room without this socket.
\<close>

datatype target = NamespaceRoom string | ToSocket | SocketRoom string

datatype payload =
    MessagePayload DiscordMessage
  | MessageDeletePayload string string
  | UserLeftPayload string "string option" string
  | ChannelPayload channel_descriptor
  | ChannelsPayload "channel_descriptor list"
  | ErrorPayload string string string

type_synonym emit = "target \<times> string \<times> payload"

text \<open>
  What a client callback is called with: \<open>GetChannelsResponse\<close>
  (\<open>success\<close>, \<open>error?\<close>, \<open>channels\<close>) and \<open>JoinChannelResponse\<close>
  (\<open>success\<close>, \<open>channelId?\<close>, \<open>alreadyJoined?\<close>, \<open>error?\<close>).
\<close>

datatype response =
    GetChannelsResponse bool "string option" "channel_descriptor list"
  | JoinChannelResponse bool "string option" "bool option" "string option"

text \<open>
  \<open>socket.data\<close> as the handlers read it: \<open>user.username\<close>, \<open>discordId\<close> and
  \<open>userId\<close> (which the authenticator never sets).
\<close>

record socket_data =
  sd_username :: string
  sd_discordId :: string
  sd_userId :: "string option"

text \<open>
  The state the handlers work on: the singleton bot (\<open>io\<close> set or still
  \<open>null\<close>, the registry), one connection's handler (\<open>socket.data\<close>,
  \<open>joinedChannels\<close> in insertion order since the disconnect handler iterates over
  it, the rooms of the socket), and the observable effects in the order they happen
  (\<open>emitted\<close>, and \<open>acks\<close>, the invocations of client callbacks). Console output
  and \<open>logError\<close> are left out.
\<close>

record state =
  io :: bool
  channelSubscriptions :: registry
  socketData :: socket_data
  joinedChannels :: "string list"
  rooms :: "string set"
  emitted :: "emit list"
  acks :: "response list"

text \<open>\<^verbatim>\<open>`channel:${channelId}`\<close>\<close>

definition channelRoom :: "string \<Rightarrow> string" where
  "channelRoom channelId = ''channel:'' @ channelId"

text \<open>\<open>callback?.(r)\<close>: the callback is optional.\<close>

definition invoke :: "bool \<Rightarrow> response \<Rightarrow> state \<Rightarrow> state" where
  "invoke callback r s = (if callback then s\<lparr>acks := acks s @ [r]\<rparr> else s)"

definition emit :: "target \<Rightarrow> string \<Rightarrow> payload \<Rightarrow> state \<Rightarrow> state" where
  "emit t event p s = s\<lparr>emitted := emitted s @ [(t, event, p)]\<rparr>"


section \<open>The bot's handlers of upstream events\<close>

text \<open>
  \<^verbatim>\<open>
  private async handleNewMessage(message: Message) {
    if (message.author.bot) return;
    const channelId = message.channel.id;
    const subscribers = this.channelSubscriptions.get(channelId);
    if (!subscribers || subscribers.size === 0) return;
    try {
      const formattedMessage = await this.formatMessage(message);
      this.io?.of('/discord').to(`channel:${channelId}`).emit('message', formattedMessage);
    } catch (error) {
      console.error('Error handling new message:', error);
    }
  }
  \<close>
\<close>

definition handleNewMessage :: "message \<Rightarrow> state \<Rightarrow> state" where
  "handleNewMessage message s =
     (if usr_bot (msg_author message) then s
      else
        let channelId = msg_channel_id message
        in case map_of (channelSubscriptions s) channelId of
             None \<Rightarrow> s
           | Some subscribers \<Rightarrow>
               if subscribers = {} then s
               else (case formatMessage message of
                       Inl error \<Rightarrow> s
                     | Inr formattedMessage \<Rightarrow>
                         if io s
                         then emit (NamespaceRoom (channelRoom channelId)) ''message''
                                (MessagePayload formattedMessage) s
                         else s))"

text \<open>
  \<^verbatim>\<open>
  private async handleMessageUpdate(message: Message) {
    if (message.author.bot) return;
    try {
      const formattedMessage = await this.formatMessage(message);
      formattedMessage.edited = true;
      formattedMessage.editedTimestamp = message.editedAt?.toISOString() || '';
      // Broadcast update
      this.io?.of('/discord').to(`channel:${message.channel.id}`).emit('message_update', formattedMessage);
    } catch (error) {
      console.error('Error handling message update:', error);
    }
  }
  \<close>
\<close>

definition editedTimestamp :: "date option \<Rightarrow> thrown + string" where
  "editedTimestamp editedAt =
     (case editedAt of
        None \<Rightarrow> Inr ''''
      | Some d \<Rightarrow> (case toISOString d of
                    Inl e \<Rightarrow> Inl e
                  | Inr rendering \<Rightarrow> Inr (or_string (Some rendering) '''')))"

definition handleMessageUpdate :: "message \<Rightarrow> state \<Rightarrow> state" where
  "handleMessageUpdate message s =
     (if usr_bot (msg_author message) then s
      else (case formatMessage message of
              Inl error \<Rightarrow> s
            | Inr formattedMessage \<Rightarrow>
                (case editedTimestamp (msg_editedAt message) of
                   Inl error \<Rightarrow> s
                 | Inr stamp \<Rightarrow>
                     if io s
                     then emit (NamespaceRoom (channelRoom (msg_channel_id message)))
                            ''message_update''
                            (MessagePayload
                               (formattedMessage\<lparr>dm_edited := True,
                                                  dm_editedTimestamp := stamp\<rparr>)) s
                     else s)))"

text \<open>
  \<^verbatim>\<open>
  private async handleMessageDelete(message: any) {
    try {
      // Broadcast deletion
      this.io?.of('/discord').to(`channel:${message.channel.id}`).emit('message_delete', {
        messageId: message.id,
        channelId: message.channel.id
      });
    } catch (error) {
      console.error('Error handling message delete:', error);
    }
  }
  \<close>
\<close>

definition handleMessageDelete :: "message \<Rightarrow> state \<Rightarrow> state" where
  "handleMessageDelete message s =
     (if io s
      then emit (NamespaceRoom (channelRoom (msg_channel_id message))) ''message_delete''
             (MessageDeletePayload (msg_id message) (msg_channel_id message)) s
      else s)"

text \<open>
  The listeners that \<open>setupEventHandlers\<close> registers on the client for the three
  message events; an update whose new message is partial is ignored.
\<close>

datatype upstream_event =
    MessageCreate message
  | MessageUpdate message
  | MessageDelete message

fun on_event :: "upstream_event \<Rightarrow> state \<Rightarrow> state" where
  "on_event (MessageCreate message) s = handleNewMessage message s"
| "on_event (MessageUpdate newMessage) s =
     (if msg_partial newMessage then s else handleMessageUpdate newMessage s)"
| "on_event (MessageDelete message) s = handleMessageDelete message s"


section \<open>The chat platform's client, as the bot queries it\<close>

text \<open>
  What \<open>this.client.channels.fetch(channelId)\<close> resolves to: \<open>null\<close> or a channel,
  of which the bot reads \<open>id\<close>, \<open>name\<close> (if the channel has one), \<open>type\<close>,
  \<open>isTextBased?.()\<close> and \<open>guild\<close> (identifier and name, if the channel has one).
\<close>

record raw_channel =
  ch_id :: string
  ch_name :: "string option"
  ch_type :: nat
  ch_isTextBased :: bool
  ch_guild :: "(string \<times> string) option"

text \<open>
  A guild of \<open>this.client.guilds.cache\<close>: \<open>gd_members_fetch\<close> is
  \<open>guild.members.fetch\<close> (it resolves to the member or rejects), and each channel of
  \<open>guild.channels.cache\<close> answers \<open>permissionsFor(member)\<close> with the set of
  permission names, or with \<open>null\<close>. A member is named by the user identifier.
\<close>

type_synonym member = string

record guild_channel =
  gc_id :: string
  gc_name :: "string option"
  gc_type :: nat
  gc_isTextBased :: bool
  gc_position :: "nat option"
  gc_permissionsFor :: "member \<Rightarrow> string set option"

record guild =
  gd_id :: string
  gd_name :: string
  gd_members_fetch :: "string \<Rightarrow> thrown + member"
  gd_channels :: "guild_channel list"

text \<open>
  The collaborators of one handler call: the client's channel lookup, its guilds, and
  the transport's \<open>socket.join\<close>, which is awaited and may reject.
\<close>

record collaborators =
  channels_fetch :: "string \<Rightarrow> thrown + raw_channel option"
  guilds :: "guild list"
  socket_join :: "string \<Rightarrow> thrown + unit"

record channel_info =
  ci_id :: string
  ci_name :: string
  ci_type :: nat
  ci_serverId :: string
  ci_serverName :: string

text \<open>
  \<^verbatim>\<open>
  async getChannelInfo(channelId: string) {
    try {
      const channel = await this.client.channels.fetch(channelId);
      if (!channel || !channel.isTextBased?.()) {
        throw new Error('Channel not found or not text-based');
      }
      return { id: channel.id, name: 'name' in channel ? channel.name : '', type: channel.type,
        serverId: 'guild' in channel && channel.guild ? channel.guild.id : '',
        serverName: 'guild' in channel && channel.guild ? channel.guild.name : '' };
    } catch (error) {
      console.error('Error getting channel info:', error);
      throw error;
    }
  }
  \<close>
\<close>

definition getChannelInfo :: "collaborators \<Rightarrow> string \<Rightarrow> thrown + channel_info" where
  "getChannelInfo env channelId =
     (case channels_fetch env channelId of
        Inl error \<Rightarrow> Inl error
      | Inr None \<Rightarrow> Inl (OtherError ''Channel not found or not text-based'')
      | Inr (Some channel) \<Rightarrow>
          if \<not> ch_isTextBased channel
          then Inl (OtherError ''Channel not found or not text-based'')
          else Inr \<lparr> ci_id = ch_id channel,
                     ci_name = (case ch_name channel of None \<Rightarrow> '''' | Some n \<Rightarrow> n),
                     ci_type = ch_type channel,
                     ci_serverId = (case ch_guild channel of None \<Rightarrow> '''' | Some g \<Rightarrow> fst g),
                     ci_serverName = (case ch_guild channel of None \<Rightarrow> '''' | Some g \<Rightarrow> snd g) \<rparr>)"

text \<open>
  \<^verbatim>\<open>
  const textChannels = guild.channels.cache.filter(channel =>
    channel.isTextBased?.() && channel.type === 0 && channel.permissionsFor(member).has('ViewChannel'));
  \<close>
  \<open>&&\<close> evaluates \<open>permissionsFor\<close> only for a text channel of type 0; \<open>.has\<close> on
  \<open>null\<close> throws a \<open>TypeError\<close>, which ends the filter.
\<close>

definition has_permission :: "string set option \<Rightarrow> string \<Rightarrow> thrown + bool" where
  "has_permission perms flag =
     (case perms of
        None \<Rightarrow> Inl (OtherError ''TypeError: Cannot read properties of null'')
      | Some held \<Rightarrow> Inr (flag \<in> held))"

fun filterTextChannels :: "member \<Rightarrow> guild_channel list \<Rightarrow> thrown + guild_channel list" where
  "filterTextChannels member [] = Inr []"
| "filterTextChannels member (channel # rest) =
     (if gc_isTextBased channel \<and> gc_type channel = 0
      then (case has_permission (gc_permissionsFor channel member) ''ViewChannel'' of
              Inl error \<Rightarrow> Inl error
            | Inr visible \<Rightarrow>
                (case filterTextChannels member rest of
                   Inl error \<Rightarrow> Inl error
                 | Inr kept \<Rightarrow> Inr (if visible then channel # kept else kept)))
      else filterTextChannels member rest)"

text \<open>
  \<^verbatim>\<open>
  for (const channel of textChannels.values()) {
    channels.push({ id: channel.id, name: 'name' in channel ? channel.name : '', type: 'text',
      serverId: guild.id, serverName: guild.name,
      position: 'position' in channel && typeof channel.position === 'number' ? channel.position : 0,
      unreadCount: 0, isActive: false,
      permissions: { canRead: channel.permissionsFor(member).has('ViewChannel'),
                     canWrite: channel.permissionsFor(member).has('SendMessages'),
                     canManage: channel.permissionsFor(member).has('ManageChannels') } });
  }
  \<close>
\<close>

definition describeChannel :: "guild \<Rightarrow> member \<Rightarrow> guild_channel \<Rightarrow> thrown + channel_descriptor" where
  "describeChannel g member channel =
     (case has_permission (gc_permissionsFor channel member) ''ViewChannel'' of
        Inl error \<Rightarrow> Inl error
      | Inr canRead \<Rightarrow>
     (case has_permission (gc_permissionsFor channel member) ''SendMessages'' of
        Inl error \<Rightarrow> Inl error
      | Inr canWrite \<Rightarrow>
     (case has_permission (gc_permissionsFor channel member) ''ManageChannels'' of
        Inl error \<Rightarrow> Inl error
      | Inr canManage \<Rightarrow>
          Inr \<lparr> cd_id = gc_id channel,
                cd_name = (case gc_name channel of None \<Rightarrow> '''' | Some n \<Rightarrow> n),
                cd_type = ''text'',
                cd_serverId = gd_id g,
                cd_serverName = gd_name g,
                cd_position = nullish_number (gc_position channel) 0,
                cd_unreadCount = 0,
                cd_isActive = False,
                cd_canRead = canRead,
                cd_canWrite = canWrite,
                cd_canManage = canManage \<rparr>)))"

fun pushChannels ::
  "guild \<Rightarrow> member \<Rightarrow> guild_channel list \<Rightarrow> channel_descriptor list
     \<Rightarrow> thrown + channel_descriptor list" where
  "pushChannels g member [] channels = Inr channels"
| "pushChannels g member (channel # rest) channels =
     (case describeChannel g member channel of
        Inl error \<Rightarrow> Inl error
      | Inr descriptor \<Rightarrow> pushChannels g member rest (channels @ [descriptor]))"

text \<open>
  \<^verbatim>\<open>
  for (const guild of this.client.guilds.cache.values()) {
    const member = await guild.members.fetch(userId).catch(() => null);
    if (member) { ... }
  }
  \<close>
  A rejected member lookup is turned into \<open>null\<close> and the guild is skipped.
\<close>

fun collectChannels ::
  "string \<Rightarrow> guild list \<Rightarrow> channel_descriptor list \<Rightarrow> thrown + channel_descriptor list" where
  "collectChannels userId [] channels = Inr channels"
| "collectChannels userId (g # rest) channels =
     (case gd_members_fetch g userId of
        Inl rejected \<Rightarrow> collectChannels userId rest channels
      | Inr member \<Rightarrow>
          (case filterTextChannels member (gd_channels g) of
             Inl error \<Rightarrow> Inl error
           | Inr textChannels \<Rightarrow>
               (case pushChannels g member textChannels channels of
                  Inl error \<Rightarrow> Inl error
                | Inr channels' \<Rightarrow> collectChannels userId rest channels')))"

text \<open>
  \<^verbatim>\<open>
  async getUserChannels(userId: string) {
    try {
      const channels: any[] = [];
      for (const guild of this.client.guilds.cache.values()) { ... }
      return channels;
    } catch (error) {
      console.error('Error getting user channels:', error);
      return [];
    }
  }
  \<close>
  The result is what the returned promise settles to: \<open>Inr\<close> when it resolves,
  \<open>Inl\<close> when it rejects.
\<close>

definition getUserChannels :: "collaborators \<Rightarrow> string \<Rightarrow> thrown + channel_descriptor list" where
  "getUserChannels env userId =
     (case collectChannels userId (guilds env) [] of
        Inl error \<Rightarrow> Inr []
      | Inr channels \<Rightarrow> Inr channels)"


section \<open>The connection handler\<close>

text \<open>
  \<^verbatim>\<open>
  private async handleGetChannels(callback?: (response: GetChannelsResponse) => void) {
    try {
      const channels = await this.discordBot.getUserChannels(this.socket.data.discordId);
      this.socket.emit('channels_list', channels);
      callback?.({ success: true, channels });
    } catch (error) {
      logError(error as Error, 'handleGetChannels', this.socket.data.userId);
      const errorResponse = { success: false, error: 'Failed to fetch channels', channels:[] };
      callback?.(errorResponse);
      this.socket.emit('error', { code: 'CHANNELS_FETCH_FAILED',
        message: 'Unable to fetch channels', severity: 'MEDIUM' });
    }
  }
  \<close>
  \<open>handleGetChannels_settled\<close> is the handler from the point where the awaited
  promise has settled: the rest of the \<open>try\<close> block when it resolved, the
  \<open>catch\<close> block when it rejected.
\<close>

definition handleGetChannels_settled ::
  "thrown + channel_descriptor list \<Rightarrow> bool \<Rightarrow> state \<Rightarrow> state" where
  "handleGetChannels_settled settled callback s =
     (case settled of
        Inr channels \<Rightarrow>
          invoke callback (GetChannelsResponse True None channels)
            (emit ToSocket ''channels_list'' (ChannelsPayload channels) s)
      | Inl error \<Rightarrow>
          emit ToSocket ''error''
            (ErrorPayload ''CHANNELS_FETCH_FAILED'' ''Unable to fetch channels'' ''MEDIUM'')
            (invoke callback (GetChannelsResponse False (Some ''Failed to fetch channels'') []) s))"

definition handleGetChannels :: "collaborators \<Rightarrow> bool \<Rightarrow> state \<Rightarrow> state" where
  "handleGetChannels env callback s =
     handleGetChannels_settled (getUserChannels env (sd_discordId (socketData s))) callback s"

text \<open>
  \<^verbatim>\<open>
  private async handleJoinChannel(data: { channelId: string },
                                  callback?: (response: JoinChannelResponse) => void) {
    try {
      const { channelId } = data;
      if (this.joinedChannels.has(channelId)) {
        callback?.({ success: true, channelId, alreadyJoined: true });
        return;
      }
      const channelInfo = await this.discordBot.getChannelInfo(channelId);
      await this.socket.join(`channel:${channelId}`);
      this.joinedChannels.add(channelId);
      await this.discordBot.subscribeToChannel(channelId, this.socket.data.discordId);
      this.socket.emit('channels', { id: channelId, name: channelInfo.name, type: 'text',
        serverId: channelInfo.serverId, serverName: channelInfo.serverName, position: 0,
        unreadCount: 0, isActive: true,
        permissions: { canRead: true, canWrite: true, canManage: false } });
      callback?.({ success: true, channelId });
    } catch (error) {
      logError(error as Error, 'handleJoinChannel', this.socket.data.userId);
      callback?.({ success: false, error: 'Failed to join channel' });
    }
  }
  \<close>
  The handler is run as one step: the calls it awaits are answered by the
  collaborators, and no other handler runs in between.
\<close>

definition joinFailed :: "bool \<Rightarrow> state \<Rightarrow> state" where
  "joinFailed callback s =
     invoke callback (JoinChannelResponse False None None (Some ''Failed to join channel'')) s"

definition joinConfirmation :: "string \<Rightarrow> channel_info \<Rightarrow> channel_descriptor" where
  "joinConfirmation channelId channelInfo =
     \<lparr> cd_id = channelId,
       cd_name = ci_name channelInfo,
       cd_type = ''text'',
       cd_serverId = ci_serverId channelInfo,
       cd_serverName = ci_serverName channelInfo,
       cd_position = 0,
       cd_unreadCount = 0,
       cd_isActive = True,
       cd_canRead = True,
       cd_canWrite = True,
       cd_canManage = False \<rparr>"

definition handleJoinChannel :: "collaborators \<Rightarrow> string \<Rightarrow> bool \<Rightarrow> state \<Rightarrow> state" where
  "handleJoinChannel env channelId callback s =
     (if channelId \<in> set (joinedChannels s)
      then invoke callback (JoinChannelResponse True (Some channelId) (Some True) None) s
      else (case getChannelInfo env channelId of
              Inl error \<Rightarrow> joinFailed callback s
            | Inr channelInfo \<Rightarrow>
                (case socket_join env (channelRoom channelId) of
                   Inl error \<Rightarrow> joinFailed callback s
                 | Inr _ \<Rightarrow>
                     invoke callback (JoinChannelResponse True (Some channelId) None None)
                       (emit ToSocket ''channels''
                          (ChannelPayload (joinConfirmation channelId channelInfo))
                          (s\<lparr> rooms := insert (channelRoom channelId) (rooms s),
                              joinedChannels := joinedChannels s @ [channelId],
                              channelSubscriptions :=
                                subscribeToChannel (channelSubscriptions s) channelId
                                  (sd_discordId (socketData s)) \<rparr>)))))"

text \<open>
  \<^verbatim>\<open>
  private async handleDisconnect(reason: string) {
    // Clean up subscriptions
    for (const channelId of this.joinedChannels) {
      await this.discordBot.unsubscribeFromChannel(channelId, this.socket.data.discordId);
      // Notify other users
      this.socket.to(`channel:${channelId}`).emit('user_left', {
        channelId, user: { id: this.socket.data.userId, username: this.socket.data.user.username } });
    }
    this.joinedChannels.clear();
  }
  \<close>
  The loop is run as one step, over the joined-set as it is when the handler starts.
\<close>

definition userLeft :: "string \<Rightarrow> state \<Rightarrow> emit" where
  "userLeft channelId s =
     (SocketRoom (channelRoom channelId), ''user_left'',
      UserLeftPayload channelId (sd_userId (socketData s)) (sd_username (socketData s)))"

fun cleanUpSubscriptions :: "string list \<Rightarrow> state \<Rightarrow> state" where
  "cleanUpSubscriptions [] s = s"
| "cleanUpSubscriptions (channelId # rest) s =
     cleanUpSubscriptions rest
       (s\<lparr> channelSubscriptions :=
              unsubscribeFromChannel (channelSubscriptions s) channelId
                (sd_discordId (socketData s)),
            emitted := emitted s @ [userLeft channelId s] \<rparr>)"

definition handleDisconnect :: "string \<Rightarrow> state \<Rightarrow> state" where
  "handleDisconnect reason s =
     (cleanUpSubscriptions (joinedChannels s) s)\<lparr>joinedChannels := []\<rparr>"


section \<open>The session authenticator\<close>

text \<open>
  Modelled from the spec: the class hierarchy of the \<open>jsonwebtoken\<close> package, which
  is not among the sources. \<open>TokenExpiredError\<close> is a subtype of
  \<open>JsonWebTokenError\<close> (as is \<open>NotBeforeError\<close>, built the same way on
  \<open>JsonWebTokenError.prototype\<close>), so \<open>instanceof JsonWebTokenError\<close> holds for
  their instances too. The two functions are the two \<open>instanceof\<close> tests of the
  authenticator.
\<close>

fun instanceof_JsonWebTokenError :: "thrown \<Rightarrow> bool" where
  "instanceof_JsonWebTokenError (JsonWebTokenError _) = True"
| "instanceof_JsonWebTokenError (TokenExpiredError _) = True"
| "instanceof_JsonWebTokenError (NotBeforeError _) = True"
| "instanceof_JsonWebTokenError (OtherError _) = False"

fun instanceof_TokenExpiredError :: "thrown \<Rightarrow> bool" where
  "instanceof_TokenExpiredError (TokenExpiredError _) = True"
| "instanceof_TokenExpiredError _ = False"

text \<open>The decoded token (\<open>AuthPayload\<close>): the two fields the authenticator requires.\<close>

record AuthPayload =
  username :: "string option"
  discord_id :: "string option"

text \<open>
  \<^verbatim>\<open>
  export const authenticateSocket = async (socket: Socket, next: (err?: Error) => void) => {
    try {
      const token = socket.handshake.auth['token'];
      if (!token) { return next(new Error('Authentication token required')); }
      const decoded = jwt.verify(token, process.env['JWT_SECRET'] as string) as AuthPayload;
      if (!decoded.username || !decoded.discord_id) {
        return next(new Error('Invalid token payload'));
      }
      socket.data.user = decoded;
      socket.data.discordId = decoded.discord_id;
      next();
    } catch (error: unknown) {
      if (error instanceof jwt.JsonWebTokenError) {
        return next(new Error('Invalid authentication token'));
      }
      if (error instanceof jwt.TokenExpiredError) {
        return next(new Error('Authentication token expired'));
      }
      return next(new Error('Authentication failed'));
    }
  };
  \<close>
  \<open>verify\<close> is \<open>jwt.verify\<close> with the configured secret: it returns the decoded
  payload or throws. The result is what \<open>next\<close> is called with: \<open>Inl\<close> the message
  of the error, \<open>Inr\<close> the data attached to the socket when \<open>next()\<close> accepts the
  connection.
\<close>

definition falsy :: "string option \<Rightarrow> bool" where
  "falsy v = (case v of None \<Rightarrow> True | Some str \<Rightarrow> str = [])"

definition authenticateSocket ::
  "(string \<Rightarrow> thrown + AuthPayload) \<Rightarrow> string option \<Rightarrow> string + socket_data" where
  "authenticateSocket verify token =
     (case token of
        None \<Rightarrow> Inl ''Authentication token required''
      | Some tok \<Rightarrow>
          if tok = [] then Inl ''Authentication token required''
          else (case verify tok of
                  Inr decoded \<Rightarrow>
                    if falsy (username decoded) \<or> falsy (discord_id decoded)
                    then Inl ''Invalid token payload''
                    else Inr \<lparr> sd_username = or_string (username decoded) '''',
                               sd_discordId = or_string (discord_id decoded) '''',
                               sd_userId = None \<rparr>
                | Inl error \<Rightarrow>
                    if instanceof_JsonWebTokenError error
                    then Inl ''Invalid authentication token''
                    else if instanceof_TokenExpiredError error
                    then Inl ''Authentication token expired''
                    else Inl ''Authentication failed''))"


section \<open>A scenario\<close>

text \<open>
  Principal \<open>U1\<close>, channel \<open>C1\<close>, and a message \<open>hi\<close> in \<open>C1\<close> by \<open>A1\<close>; the
  flag says whether \<open>A1\<close> is a bot.
\<close>

definition scenario_message :: "bool \<Rightarrow> message" where
  "scenario_message isBot =
     \<lparr> msg_id = ''M1'',
       msg_content = ''hi'',
       msg_author = \<lparr> usr_id = ''A1'', usr_username = ''a1'', usr_displayName = None,
                      usr_avatarURL = ''https://cdn/a1.png'', usr_bot = isBot \<rparr>,
       msg_createdAt = Date ''2024-01-01T00:00:00.000Z'',
       msg_editedAt = None,
       msg_channel_id = ''C1'',
       msg_guild_id = Some ''G1'',
       msg_attachments = [],
       msg_embeds = [],
       msg_reactions = [],
       msg_partial = False \<rparr>"

definition scenario_wire :: DiscordMessage where
  "scenario_wire =
     \<lparr> dm_id = ''M1'',
       dm_content = ''hi'',
       dm_author = \<lparr> wa_id = ''A1'', wa_username = ''a1'', wa_displayName = ''a1'',
                     wa_avatar = ''https://cdn/a1.png'', wa_bot = False \<rparr>,
       dm_timestamp = ''2024-01-01T00:00:00.000Z'',
       dm_channelId = ''C1'',
       dm_serverId = ''G1'',
       dm_attachments = [],
       dm_embeds = [],
       dm_reactions = [],
       dm_edited = False,
       dm_editedTimestamp = '''' \<rparr>"

text \<open>A fresh connection of \<open>U1\<close> on an initialised bot with an empty registry.\<close>

definition fresh :: state where
  "fresh =
     \<lparr> io = True,
       channelSubscriptions = [],
       socketData = \<lparr> sd_username = ''u1'', sd_discordId = ''U1'', sd_userId = None \<rparr>,
       joinedChannels = [],
       rooms = {},
       emitted = [],
       acks = [] \<rparr>"

text \<open>
  The platform knows the text channels \<open>C1\<close> and \<open>C2\<close> of guild \<open>G1\<close>; \<open>U1\<close> is a
  member of \<open>G1\<close> and may view \<open>C1\<close>; the member lookup of a second guild \<open>G2\<close>
  rejects; joining a room succeeds.
\<close>

definition scenario_channel :: "string \<Rightarrow> raw_channel" where
  "scenario_channel channelId =
     \<lparr> ch_id = channelId, ch_name = Some ''general'', ch_type = 0, ch_isTextBased = True,
       ch_guild = Some (''G1'', ''Guild One'') \<rparr>"

definition scenario_guilds :: "guild list" where
  "scenario_guilds =
     [\<lparr> gd_id = ''G1'', gd_name = ''Guild One'',
        gd_members_fetch = (\<lambda>userId. Inr userId),
        gd_channels =
          [\<lparr> gc_id = ''C1'', gc_name = Some ''general'', gc_type = 0, gc_isTextBased = True,
             gc_position = Some 3,
             gc_permissionsFor = (\<lambda>member. Some {''ViewChannel'', ''SendMessages''}) \<rparr>] \<rparr>,
      \<lparr> gd_id = ''G2'', gd_name = ''Guild Two'',
        gd_members_fetch = (\<lambda>userId. Inl (OtherError ''Request timed out'')),
        gd_channels = [] \<rparr>]"

definition scenario_env :: collaborators where
  "scenario_env =
     \<lparr> channels_fetch =
         (\<lambda>channelId. if channelId = ''C1'' \<or> channelId = ''C2''
                       then Inr (Some (scenario_channel channelId))
                       else Inl (OtherError ''Unknown Channel'')),
       guilds = scenario_guilds,
       socket_join = (\<lambda>room. Inr ()) \<rparr>"


text \<open>
  A guild in which \<open>U1\<close> is a member but whose text channel cannot resolve the
  member's permissions: \<open>permissionsFor\<close> answers \<open>null\<close>.
\<close>

definition unresolved_guilds :: "guild list" where
  "unresolved_guilds =
     [\<lparr> gd_id = ''G3'', gd_name = ''Guild Three'',
        gd_members_fetch = (\<lambda>userId. Inr userId),
        gd_channels =
          [\<lparr> gc_id = ''C7'', gc_name = Some ''lobby'', gc_type = 0, gc_isTextBased = True,
             gc_position = None,
             gc_permissionsFor = (\<lambda>member. None) \<rparr>] \<rparr>]"


section \<open>Properties of the registry\<close>

lemma length_update_le: "length (AList.update k v al) \<le> Suc (length al)"
  by (induction al) auto

lemma length_update_present:
  "map_of al k \<noteq> None \<Longrightarrow> length (AList.update k v al) = length al"
  by (induction al) auto

lemma subscribe_get_defined:
  "map_of (if map_of subs c = None then AList.update c {} subs else subs) c \<noteq> None"
  by (simp add: update_conv')

lemma map_of_subscribe:
  "map_of (subscribeToChannel subs c u) =
     (map_of subs)(c \<mapsto> insert u (listSubscribers subs c))"
  by (auto simp: subscribeToChannel_def listSubscribers_def update_conv' Let_def
           split: option.splits)

lemma map_of_unsubscribe:
  "map_of (unsubscribeFromChannel subs c u) =
     (case map_of subs c of
        None \<Rightarrow> map_of subs
      | Some s \<Rightarrow> if s - {u} = {} then (map_of subs)(c := None)
                  else (map_of subs)(c \<mapsto> s - {u}))"
  by (auto simp: unsubscribeFromChannel_def update_conv' delete_conv' Let_def
           split: option.splits)

lemma distinct_subscribe:
  "distinct (map fst subs) \<Longrightarrow> distinct (map fst (subscribeToChannel subs c u))"
  by (auto simp: subscribeToChannel_def Let_def distinct_update split: option.splits)

lemma distinct_unsubscribe:
  "distinct (map fst subs) \<Longrightarrow> distinct (map fst (unsubscribeFromChannel subs c u))"
  by (auto simp: unsubscribeFromChannel_def Let_def distinct_update distinct_delete
           split: option.splits)

lemma registry_inv_subscribe:
  "registry_inv subs \<Longrightarrow> registry_inv (subscribeToChannel subs c u)"
  by (simp add: registry_inv_def distinct_subscribe map_of_subscribe)

lemma registry_inv_unsubscribe:
  "registry_inv subs \<Longrightarrow> registry_inv (unsubscribeFromChannel subs c u)"
  by (auto simp: registry_inv_def distinct_unsubscribe map_of_unsubscribe
           split: option.splits)

lemma registry_inv_step:
  "registry_inv subs \<Longrightarrow> registry_inv (registry_step subs call)"
  by (cases call) (simp_all add: registry_inv_subscribe registry_inv_unsubscribe)

lemma registry_inv_run:
  "registry_inv subs \<Longrightarrow> registry_inv (run_calls calls subs)"
  unfolding run_calls_def
  by (induction calls arbitrary: subs) (simp_all add: registry_inv_step)

lemma registry_inv_empty: "registry_inv []"
  by (simp add: registry_inv_def)

lemma registry_inv_reachable: "registry_inv (run_calls calls [])"
  by (rule registry_inv_run [OF registry_inv_empty])

lemma registry_inv_no_empty_pair:
  assumes "registry_inv subs"
  shows "(c, {}) \<notin> set subs"
proof
  assume "(c, {}) \<in> set subs"
  with assms have "map_of subs c = Some {}"
    by (simp add: registry_inv_def)
  with assms show False
    by (simp add: registry_inv_def)
qed

lemma registry_inv_present_iff:
  assumes "registry_inv subs"
  shows "c \<in> fst ` set subs \<longleftrightarrow> listSubscribers subs c \<noteq> {}"
proof -
  have "c \<in> fst ` set subs \<longleftrightarrow> map_of subs c \<noteq> None"
    by (simp add: map_of_eq_None_iff)
  also have "\<dots> \<longleftrightarrow> listSubscribers subs c \<noteq> {}"
    using assms by (auto simp: registry_inv_def listSubscribers_def split: option.splits)
  finally show ?thesis .
qed

lemma unsubscribe_non_member:
  assumes "registry_inv subs" and "u \<notin> listSubscribers subs c"
  shows "unsubscribeFromChannel subs c u = subs"
proof (cases "map_of subs c")
  case None
  then show ?thesis by (simp add: unsubscribeFromChannel_def)
next
  case (Some s)
  with assms have "s - {u} = s" and "s \<noteq> {}"
    by (auto simp: listSubscribers_def registry_inv_def)
  with Some show ?thesis
    by (simp add: unsubscribeFromChannel_def update_triv)
qed


text \<open>
  C1. Whatever sequence of \<open>subscribeToChannel\<close> and \<open>unsubscribeFromChannel\<close>
  calls is run from the empty registry, the resulting map has no entry bound to the
  empty set, and a channel identifier is a key of the map exactly when its subscriber
  set is non-empty.
\<close>

theorem registry_never_holds_empty_set:
  "(c, {}) \<notin> set (run_calls calls [])
   \<and> (c \<in> fst ` set (run_calls calls []) \<longleftrightarrow> listSubscribers (run_calls calls []) c \<noteq> {})"
  using registry_inv_no_empty_pair [OF registry_inv_reachable]
        registry_inv_present_iff [OF registry_inv_reachable]
  by blast

theorem registry_never_holds_empty_set_witness:
  "run_calls [Subscribe ''c1'' ''u1'', Subscribe ''c2'' ''u1'', Unsubscribe ''c1'' ''u1''] []
     = [(''c2'', {''u1''})]
   \<and> (''c1'', {}) \<notin> set (run_calls [Subscribe ''c1'' ''u1'', Subscribe ''c2'' ''u1'',
                                     Unsubscribe ''c1'' ''u1''] [])
   \<and> ''c1'' \<notin> fst ` set (run_calls [Subscribe ''c1'' ''u1'', Subscribe ''c2'' ''u1'',
                                     Unsubscribe ''c1'' ''u1''] [])"
  using registry_never_holds_empty_set
          [of "''c1''" "[Subscribe ''c1'' ''u1'', Subscribe ''c2'' ''u1'', Unsubscribe ''c1'' ''u1'']"]
  by (simp add: run_calls_def subscribeToChannel_def unsubscribeFromChannel_def
                listSubscribers_def)


text \<open>
  C7. Calling \<open>subscribeToChannel\<close> a second time with the same arguments leaves the
  registry exactly as the first call left it (so the subscriber set of the channel is
  the same), and one call adds at most one entry to the map.
\<close>

theorem subscribe_idempotent_grows_by_one:
  "subscribeToChannel (subscribeToChannel subs c u) c u = subscribeToChannel subs c u
   \<and> listSubscribers (subscribeToChannel (subscribeToChannel subs c u) c u) c
       = listSubscribers (subscribeToChannel subs c u) c
   \<and> length (subscribeToChannel subs c u) \<le> length subs + 1"
proof -
  let ?once = "subscribeToChannel subs c u"
  have stored: "map_of ?once c = Some (insert u (listSubscribers subs c))"
    by (simp add: map_of_subscribe)
  have twice: "subscribeToChannel ?once c u = ?once"
    using stored by (simp add: subscribeToChannel_def update_triv)
  have size: "length ?once \<le> length subs + 1"
  proof (cases "map_of subs c")
    case None
    then show ?thesis
      using length_update_le [of c "{u}" subs]
      by (simp add: subscribeToChannel_def update_conv')
  next
    case (Some s)
    then show ?thesis
      by (simp add: subscribeToChannel_def length_update_present)
  qed
  from twice size show ?thesis by simp
qed


text \<open>
  C8. In a registry reached by any sequence of calls from the empty one,
  \<open>unsubscribeFromChannel\<close> for a subscriber that is not in the channel's set (the
  channel may have no entry at all) returns the registry unchanged. The function has
  no error path: it is total and returns a registry.
\<close>

theorem unsubscribe_non_member_noop:
  "u \<notin> listSubscribers (run_calls calls []) c \<Longrightarrow>
     unsubscribeFromChannel (run_calls calls []) c u = run_calls calls []"
  by (rule unsubscribe_non_member [OF registry_inv_reachable])

theorem unsubscribe_non_member_noop_witness:
  "''u2'' \<notin> listSubscribers (run_calls [Subscribe ''c1'' ''u1''] []) ''c1''
   \<and> ''u1'' \<notin> listSubscribers (run_calls [Subscribe ''c1'' ''u1''] []) ''c9''
   \<and> unsubscribeFromChannel (run_calls [Subscribe ''c1'' ''u1''] []) ''c1'' ''u2''
       = [(''c1'', {''u1''})]
   \<and> unsubscribeFromChannel (run_calls [Subscribe ''c1'' ''u1''] []) ''c9'' ''u1''
       = [(''c1'', {''u1''})]"
proof -
  have reg: "run_calls [Subscribe ''c1'' ''u1''] [] = [(''c1'', {''u1''})]"
    by (simp add: run_calls_def subscribeToChannel_def)
  have h1: "''u2'' \<notin> listSubscribers (run_calls [Subscribe ''c1'' ''u1''] []) ''c1''"
    by (simp add: reg listSubscribers_def)
  have h2: "''u1'' \<notin> listSubscribers (run_calls [Subscribe ''c1'' ''u1''] []) ''c9''"
    by (simp add: reg listSubscribers_def)
  show ?thesis
    using h1 h2 unsubscribe_non_member_noop [OF h1] unsubscribe_non_member_noop [OF h2]
    by (simp add: reg)
qed


section \<open>Properties of the event handlers, the connection handler and the authenticator\<close>


lemma handleNewMessage_without_subscribers:
  "listSubscribers (channelSubscriptions s) (msg_channel_id message) = {} \<Longrightarrow>
     handleNewMessage message s = s"
  by (simp add: handleNewMessage_def listSubscribers_def Let_def split: option.splits)

lemma format_scenario: "formatMessage (scenario_message False) = Inr scenario_wire"
  by (simp add: formatMessage_def scenario_message_def scenario_wire_def or_string_def)

text \<open>
  C2. An event for a channel without subscribers is to cause no emit on the transport.
  \<open>handleNewMessage\<close> looks the channel up in the registry and returns when nobody
  listens (lemma \<open>handleNewMessage_without_subscribers\<close>), but
  \<open>handleMessageUpdate\<close> and \<open>handleMessageDelete\<close> never read the registry: with
  an empty registry, an update and a deletion of a message in \<open>C1\<close> are each emitted
  to the room \<open>channel:C1\<close>.
\<close>

theorem update_and_delete_emit_without_subscribers:
  "listSubscribers (channelSubscriptions fresh) ''C1'' = {}
   \<and> emitted (handleNewMessage (scenario_message False) fresh) = []
   \<and> emitted (handleMessageUpdate (scenario_message False) fresh)
       = [(NamespaceRoom ''channel:C1'', ''message_update'',
           MessagePayload (scenario_wire\<lparr>dm_edited := True\<rparr>))]
   \<and> emitted (handleMessageDelete (scenario_message False) fresh)
       = [(NamespaceRoom ''channel:C1'', ''message_delete'', MessageDeletePayload ''M1'' ''C1'')]"
proof -
  have chan: "msg_channel_id (scenario_message False) = ''C1''"
    and author: "\<not> usr_bot (msg_author (scenario_message False))"
    and edited: "msg_editedAt (scenario_message False) = None"
    and ident: "msg_id (scenario_message False) = ''M1''"
    by (simp_all add: scenario_message_def)
  have none: "listSubscribers (channelSubscriptions fresh) ''C1'' = {}"
    by (simp add: fresh_def listSubscribers_def)
  have created: "emitted (handleNewMessage (scenario_message False) fresh) = []"
    using none by (simp add: handleNewMessage_without_subscribers chan fresh_def)
  have updated: "emitted (handleMessageUpdate (scenario_message False) fresh)
       = [(NamespaceRoom ''channel:C1'', ''message_update'',
           MessagePayload (scenario_wire\<lparr>dm_edited := True\<rparr>))]"
    by (simp add: handleMessageUpdate_def author format_scenario edited editedTimestamp_def
                  chan emit_def channelRoom_def fresh_def scenario_wire_def)
  have deleted: "emitted (handleMessageDelete (scenario_message False) fresh)
       = [(NamespaceRoom ''channel:C1'', ''message_delete'', MessageDeletePayload ''M1'' ''C1'')]"
    by (simp add: handleMessageDelete_def chan ident emit_def channelRoom_def fresh_def)
  from none created updated deleted show ?thesis by simp
qed

text \<open>
  C5. A message-created or message-updated event whose author has the bot flag set
  leaves the state as it is, whatever the registry holds: nothing is emitted, to any
  room. This holds for the handlers and for the listeners that call them.
\<close>

theorem bot_authored_never_emitted:
  "usr_bot (msg_author message) \<Longrightarrow>
     handleNewMessage message s = s \<and> handleMessageUpdate message s = s
     \<and> on_event (MessageCreate message) s = s \<and> on_event (MessageUpdate message) s = s"
  by (simp add: handleNewMessage_def handleMessageUpdate_def)

theorem bot_authored_never_emitted_witness:
  "usr_bot (msg_author (scenario_message True))
   \<and> emitted (on_event (MessageCreate (scenario_message True))
               (fresh\<lparr>channelSubscriptions := [(''C1'', {''U1''})]\<rparr>)) = []
   \<and> emitted (on_event (MessageUpdate (scenario_message True))
               (fresh\<lparr>channelSubscriptions := [(''C1'', {''U1''})]\<rparr>)) = []"
proof -
  have bot: "usr_bot (msg_author (scenario_message True))"
    by (simp add: scenario_message_def)
  show ?thesis
    using bot bot_authored_never_emitted [OF bot, of "fresh\<lparr>channelSubscriptions := [(''C1'', {''U1''})]\<rparr>"]
    by (simp add: fresh_def)
qed

text \<open>
  The scenario with a subscriber: \<open>U1\<close> listens on \<open>C1\<close> and the message of the
  non-bot author is dispatched once, unedited, to the room of \<open>C1\<close>.
\<close>

lemma scenario_dispatch:
  "emitted (handleNewMessage (scenario_message False)
              (fresh\<lparr>channelSubscriptions := [(''C1'', {''U1''})]\<rparr>))
     = [(NamespaceRoom ''channel:C1'', ''message'', MessagePayload scenario_wire)]"
proof -
  have chan: "msg_channel_id (scenario_message False) = ''C1''"
    and author: "\<not> usr_bot (msg_author (scenario_message False))"
    by (simp_all add: scenario_message_def)
  show ?thesis
    by (simp add: handleNewMessage_def author chan format_scenario emit_def channelRoom_def fresh_def Let_def)
qed

text \<open>
  C10. When verification throws a \<open>TokenExpiredError\<close>, \<open>authenticateSocket\<close>
  rejects the connection with \<open>Invalid authentication token\<close>: the error is an
  instance of \<open>JsonWebTokenError\<close>, whose test comes first. No verifier and no token
  make it answer \<open>Authentication token expired\<close>: that branch is unreachable.
\<close>

theorem expired_token_reported_as_invalid:
  "(tok \<noteq> [] \<and> verify tok = Inl (TokenExpiredError reason) \<longrightarrow>
      authenticateSocket verify (Some tok) = Inl ''Invalid authentication token'')
   \<and> authenticateSocket verify' token \<noteq> Inl ''Authentication token expired''"
proof -
  have unreachable: "\<not> (\<not> instanceof_JsonWebTokenError e \<and> instanceof_TokenExpiredError e)" for e
    by (cases e) simp_all
  have "authenticateSocket verify' token \<noteq> Inl ''Authentication token expired''"
    using unreachable
    by (auto simp: authenticateSocket_def split: option.splits sum.splits)
  then show ?thesis
    by (simp add: authenticateSocket_def)
qed

theorem expired_token_reported_as_invalid_witness:
  "''t'' \<noteq> []
   \<and> authenticateSocket (\<lambda>tok. Inl (TokenExpiredError ''jwt expired'')) (Some ''t'')
       = Inl ''Invalid authentication token''"
  using expired_token_reported_as_invalid
          [of "''t''" "\<lambda>tok. Inl (TokenExpiredError ''jwt expired'')" "''jwt expired''"]
  by simp


lemma absent_after_unsubscribe:
  "u \<notin> listSubscribers (unsubscribeFromChannel subs c u) c"
  by (auto simp: listSubscribers_def map_of_unsubscribe split: option.splits)

lemma unsubscribe_shrinks:
  "listSubscribers (unsubscribeFromChannel subs c u) c' \<subseteq> listSubscribers subs c'"
  by (auto simp: listSubscribers_def map_of_unsubscribe split: option.splits if_splits)

lemma cleanUp_socketData [simp]:
  "socketData (cleanUpSubscriptions cs s) = socketData s"
  by (induction cs arbitrary: s) simp_all

lemma cleanUp_acks [simp]: "acks (cleanUpSubscriptions cs s) = acks s"
  by (induction cs arbitrary: s) simp_all

lemma cleanUp_rooms [simp]: "rooms (cleanUpSubscriptions cs s) = rooms s"
  by (induction cs arbitrary: s) simp_all

lemma userLeft_cong: "socketData s' = socketData s \<Longrightarrow> userLeft c s' = userLeft c s"
  by (simp add: userLeft_def)

lemma cleanUp_emitted:
  "emitted (cleanUpSubscriptions cs s) = emitted s @ map (\<lambda>c. userLeft c s) cs"
proof (induction cs arbitrary: s)
  case Nil
  then show ?case by simp
next
  case (Cons c cs)
  have "map (\<lambda>c'. userLeft c'
          (s\<lparr>channelSubscriptions :=
                unsubscribeFromChannel (channelSubscriptions s) c (sd_discordId (socketData s)),
              emitted := emitted s @ [userLeft c s]\<rparr>)) cs
        = map (\<lambda>c'. userLeft c' s) cs"
    by (simp add: userLeft_def)
  then show ?case
    by (simp add: Cons.IH)
qed

lemma cleanUp_keeps_absent:
  "u = sd_discordId (socketData s) \<Longrightarrow> u \<notin> listSubscribers (channelSubscriptions s) c \<Longrightarrow>
     u \<notin> listSubscribers (channelSubscriptions (cleanUpSubscriptions cs s)) c"
proof (induction cs arbitrary: s)
  case Nil
  then show ?case by simp
next
  case (Cons c' cs)
  let ?s1 = "s\<lparr>channelSubscriptions :=
                  unsubscribeFromChannel (channelSubscriptions s) c' (sd_discordId (socketData s)),
                emitted := emitted s @ [userLeft c' s]\<rparr>"
  have "u \<notin> listSubscribers (channelSubscriptions ?s1) c"
    using Cons.prems(2) unsubscribe_shrinks [of "channelSubscriptions s" c' _ c] by auto
  moreover have "u = sd_discordId (socketData ?s1)"
    using Cons.prems(1) by simp
  ultimately show ?case
    using Cons.IH [of ?s1] by simp
qed

lemma cleanUp_removes:
  "c \<in> set cs \<Longrightarrow>
     sd_discordId (socketData s) \<notin> listSubscribers (channelSubscriptions (cleanUpSubscriptions cs s)) c"
proof (induction cs arbitrary: s)
  case Nil
  then show ?case by simp
next
  case (Cons c' cs)
  let ?u = "sd_discordId (socketData s)"
  let ?s1 = "s\<lparr>channelSubscriptions := unsubscribeFromChannel (channelSubscriptions s) c' ?u,
                emitted := emitted s @ [userLeft c' s]\<rparr>"
  show ?case
  proof (cases "c = c'")
    case True
    have "?u \<notin> listSubscribers (channelSubscriptions ?s1) c"
      using True by (simp add: absent_after_unsubscribe)
    then have "?u \<notin> listSubscribers (channelSubscriptions (cleanUpSubscriptions cs ?s1)) c"
      by (intro cleanUp_keeps_absent) simp_all
    then show ?thesis by simp
  next
    case False
    with Cons.prems have "c \<in> set cs" by simp
    from Cons.IH [OF this, of ?s1] show ?thesis by simp
  qed
qed

text \<open>
  C3. After \<open>handleDisconnect\<close> the joined-set is empty, and for every channel that
  was in the joined-set when it started, the principal of the session is no longer
  among the channel's subscribers in the registry and a \<open>user_left\<close> notification
  carrying that channel identifier has been broadcast to the channel's room.
\<close>

theorem disconnect_unwinds_every_joined_channel:
  "joinedChannels (handleDisconnect reason s) = []
   \<and> (\<forall>channelId \<in> set (joinedChannels s).
         sd_discordId (socketData s)
           \<notin> listSubscribers (channelSubscriptions (handleDisconnect reason s)) channelId
         \<and> (SocketRoom (channelRoom channelId), ''user_left'',
            UserLeftPayload channelId (sd_userId (socketData s)) (sd_username (socketData s)))
           \<in> set (emitted (handleDisconnect reason s)))"
proof -
  have notified: "userLeft c s \<in> set (emitted (handleDisconnect reason s))"
    if "c \<in> set (joinedChannels s)" for c
    using that by (simp add: handleDisconnect_def cleanUp_emitted)
  have removed: "sd_discordId (socketData s)
      \<notin> listSubscribers (channelSubscriptions (handleDisconnect reason s)) c"
    if "c \<in> set (joinedChannels s)" for c
    using cleanUp_removes [OF that] by (simp add: handleDisconnect_def)
  show ?thesis
    using notified removed by (simp add: handleDisconnect_def userLeft_def)
qed


lemma joinFailed_fields:
  "channelSubscriptions (joinFailed callback s) = channelSubscriptions s"
  "joinedChannels (joinFailed callback s) = joinedChannels s"
  "rooms (joinFailed callback s) = rooms s"
  "emitted (joinFailed callback s) = emitted s"
  "acks (joinFailed callback s) =
     acks s @ (if callback
               then [JoinChannelResponse False None None (Some ''Failed to join channel'')]
               else [])"
  by (simp_all add: joinFailed_def invoke_def)

lemma join_unknown_channel:
  "channelId \<notin> set (joinedChannels s) \<Longrightarrow> getChannelInfo env channelId = Inl e \<Longrightarrow>
     handleJoinChannel env channelId callback s = joinFailed callback s"
  by (simp add: handleJoinChannel_def)

lemma join_attach_rejected:
  "channelId \<notin> set (joinedChannels s) \<Longrightarrow> socket_join env (channelRoom channelId) = Inl e \<Longrightarrow>
     handleJoinChannel env channelId callback s = joinFailed callback s"
  by (simp add: handleJoinChannel_def split: sum.splits)

lemma join_succeeds:
  assumes "channelId \<notin> set (joinedChannels s)"
    and "getChannelInfo env channelId = Inr channelInfo"
    and "socket_join env (channelRoom channelId) = Inr u"
  shows "handleJoinChannel env channelId callback s =
           s\<lparr> rooms := insert (channelRoom channelId) (rooms s),
              joinedChannels := joinedChannels s @ [channelId],
              channelSubscriptions :=
                subscribeToChannel (channelSubscriptions s) channelId (sd_discordId (socketData s)),
              emitted := emitted s @ [(ToSocket, ''channels'',
                                       ChannelPayload (joinConfirmation channelId channelInfo))],
              acks := acks s @ (if callback
                                then [JoinChannelResponse True (Some channelId) None None]
                                else []) \<rparr>"
  using assms by (simp add: handleJoinChannel_def invoke_def emit_def)

lemma member_after_subscribe: "u \<in> listSubscribers (subscribeToChannel subs c u) c"
  by (simp add: listSubscribers_def map_of_subscribe)

text \<open>
  C4. \<open>handleJoinChannel\<close> on a channel that is not in the joined-set: when the
  channel lookup fails (unknown channel, channel that is not text-based, rejected
  request) or attaching to the room fails, the registry, the joined-set, the rooms of
  the socket and the emitted events are unchanged and the callback, if there is one,
  receives the failure. In every case the handler either changes none of them and
  reports failure, or does all four steps (room attached, joined-set extended, registry
  subscribed, confirmation emitted) and reports success.
\<close>

theorem join_is_all_or_nothing:
  assumes "channelId \<notin> set (joinedChannels s)"
  shows
    "((\<exists>e. getChannelInfo env channelId = Inl e)
        \<or> (\<exists>e. socket_join env (channelRoom channelId) = Inl e) \<longrightarrow>
      channelSubscriptions (handleJoinChannel env channelId callback s) = channelSubscriptions s
      \<and> joinedChannels (handleJoinChannel env channelId callback s) = joinedChannels s
      \<and> rooms (handleJoinChannel env channelId callback s) = rooms s
      \<and> emitted (handleJoinChannel env channelId callback s) = emitted s
      \<and> acks (handleJoinChannel env channelId callback s) =
          acks s @ (if callback
                    then [JoinChannelResponse False None None (Some ''Failed to join channel'')]
                    else []))
     \<and> ((channelSubscriptions (handleJoinChannel env channelId callback s) = channelSubscriptions s
          \<and> joinedChannels (handleJoinChannel env channelId callback s) = joinedChannels s
          \<and> rooms (handleJoinChannel env channelId callback s) = rooms s
          \<and> emitted (handleJoinChannel env channelId callback s) = emitted s
          \<and> acks (handleJoinChannel env channelId callback s) =
              acks s @ (if callback
                        then [JoinChannelResponse False None None (Some ''Failed to join channel'')]
                        else []))
         \<or> (\<exists>channelInfo.
               getChannelInfo env channelId = Inr channelInfo
               \<and> rooms (handleJoinChannel env channelId callback s)
                   = insert (channelRoom channelId) (rooms s)
               \<and> joinedChannels (handleJoinChannel env channelId callback s)
                   = joinedChannels s @ [channelId]
               \<and> channelSubscriptions (handleJoinChannel env channelId callback s)
                   = subscribeToChannel (channelSubscriptions s) channelId
                       (sd_discordId (socketData s))
               \<and> sd_discordId (socketData s)
                   \<in> listSubscribers (channelSubscriptions (handleJoinChannel env channelId callback s))
                       channelId
               \<and> emitted (handleJoinChannel env channelId callback s)
                   = emitted s @ [(ToSocket, ''channels'',
                                   ChannelPayload (joinConfirmation channelId channelInfo))]
               \<and> acks (handleJoinChannel env channelId callback s)
                   = acks s @ (if callback
                               then [JoinChannelResponse True (Some channelId) None None]
                               else [])))"
proof (cases "getChannelInfo env channelId")
  case (Inl e)
  then show ?thesis
    using join_unknown_channel [OF assms Inl, of callback]
    by (simp add: joinFailed_fields)
next
  case info: (Inr channelInfo)
  show ?thesis
  proof (cases "socket_join env (channelRoom channelId)")
    case (Inl e)
    then show ?thesis
      using join_attach_rejected [OF assms Inl, of callback]
      by (simp add: joinFailed_fields)
  next
    case (Inr u)
    have step: "handleJoinChannel env channelId callback s =
           s\<lparr> rooms := insert (channelRoom channelId) (rooms s),
              joinedChannels := joinedChannels s @ [channelId],
              channelSubscriptions :=
                subscribeToChannel (channelSubscriptions s) channelId (sd_discordId (socketData s)),
              emitted := emitted s @ [(ToSocket, ''channels'',
                                       ChannelPayload (joinConfirmation channelId channelInfo))],
              acks := acks s @ (if callback
                                then [JoinChannelResponse True (Some channelId) None None]
                                else []) \<rparr>"
      by (rule join_succeeds [OF assms info Inr])
    show ?thesis
      unfolding step using info Inr
      by (simp add: member_after_subscribe)
  qed
qed

text \<open>
  C6. \<open>handleJoinChannel\<close> on a channel that is already in the joined-set calls the
  callback, if there is one, with \<open>success: true\<close>, the channel identifier and
  \<open>alreadyJoined: true\<close>, and changes nothing else: registry, joined-set, rooms and
  emitted events stay as they were, so the subscriber is not entered twice.
\<close>

theorem rejoin_short_circuits:
  "channelId \<in> set (joinedChannels s) \<Longrightarrow>
     handleJoinChannel env channelId callback s
       = s\<lparr>acks := acks s @ (if callback
                             then [JoinChannelResponse True (Some channelId) (Some True) None]
                             else [])\<rparr>
     \<and> channelSubscriptions (handleJoinChannel env channelId callback s) = channelSubscriptions s
     \<and> joinedChannels (handleJoinChannel env channelId callback s) = joinedChannels s
     \<and> rooms (handleJoinChannel env channelId callback s) = rooms s
     \<and> emitted (handleJoinChannel env channelId callback s) = emitted s"
  by (simp add: handleJoinChannel_def invoke_def)


lemma scenario_info:
  "getChannelInfo scenario_env ''C1''
     = Inr \<lparr> ci_id = ''C1'', ci_name = ''general'', ci_type = 0, ci_serverId = ''G1'',
             ci_serverName = ''Guild One'' \<rparr>"
  by (simp add: getChannelInfo_def scenario_env_def scenario_channel_def)

lemma scenario_unknown:
  "getChannelInfo scenario_env ''C9'' = Inl (OtherError ''Unknown Channel'')"
  by (simp add: getChannelInfo_def scenario_env_def)

theorem join_is_all_or_nothing_witness:
  "''C9'' \<notin> set (joinedChannels fresh)
   \<and> getChannelInfo scenario_env ''C9'' = Inl (OtherError ''Unknown Channel'')
   \<and> channelSubscriptions (handleJoinChannel scenario_env ''C9'' True fresh) = []
   \<and> joinedChannels (handleJoinChannel scenario_env ''C9'' True fresh) = []
   \<and> rooms (handleJoinChannel scenario_env ''C9'' True fresh) = {}
   \<and> emitted (handleJoinChannel scenario_env ''C9'' True fresh) = []
   \<and> acks (handleJoinChannel scenario_env ''C9'' True fresh)
       = [JoinChannelResponse False None None (Some ''Failed to join channel'')]"
proof -
  have fresh_joined: "''C9'' \<notin> set (joinedChannels fresh)"
    by (simp add: fresh_def)
  show ?thesis
    using fresh_joined scenario_unknown
          join_is_all_or_nothing [OF fresh_joined, of scenario_env True]
    by (simp add: fresh_def)
qed

theorem rejoin_short_circuits_witness:
  "''C1'' \<in> set (joinedChannels
                   (fresh\<lparr>channelSubscriptions := [(''C1'', {''U1''})],
                          joinedChannels := [''C1''], rooms := {''channel:C1''}\<rparr>))
   \<and> acks (handleJoinChannel scenario_env ''C1'' True
             (fresh\<lparr>channelSubscriptions := [(''C1'', {''U1''})],
                    joinedChannels := [''C1''], rooms := {''channel:C1''}\<rparr>))
       = [JoinChannelResponse True (Some ''C1'') (Some True) None]
   \<and> channelSubscriptions (handleJoinChannel scenario_env ''C1'' True
             (fresh\<lparr>channelSubscriptions := [(''C1'', {''U1''})],
                    joinedChannels := [''C1''], rooms := {''channel:C1''}\<rparr>))
       = [(''C1'', {''U1''})]"
proof -
  let ?s = "fresh\<lparr>channelSubscriptions := [(''C1'', {''U1''})],
                  joinedChannels := [''C1''], rooms := {''channel:C1''}\<rparr>"
  have joined: "''C1'' \<in> set (joinedChannels ?s)"
    by simp
  show ?thesis
    using joined rejoin_short_circuits [OF joined, of scenario_env True]
    by (simp add: fresh_def)
qed

theorem disconnect_unwinds_every_joined_channel_witness:
  "joinedChannels (fresh\<lparr>channelSubscriptions := [(''C1'', {''U1'', ''U2''}), (''C2'', {''U1''})],
                         joinedChannels := [''C1'', ''C2'']\<rparr>) = [''C1'', ''C2'']
   \<and> joinedChannels (handleDisconnect ''transport close''
        (fresh\<lparr>channelSubscriptions := [(''C1'', {''U1'', ''U2''}), (''C2'', {''U1''})],
               joinedChannels := [''C1'', ''C2'']\<rparr>)) = []
   \<and> ''U1'' \<notin> listSubscribers (channelSubscriptions (handleDisconnect ''transport close''
        (fresh\<lparr>channelSubscriptions := [(''C1'', {''U1'', ''U2''}), (''C2'', {''U1''})],
               joinedChannels := [''C1'', ''C2'']\<rparr>))) ''C1''
   \<and> ''U1'' \<notin> listSubscribers (channelSubscriptions (handleDisconnect ''transport close''
        (fresh\<lparr>channelSubscriptions := [(''C1'', {''U1'', ''U2''}), (''C2'', {''U1''})],
               joinedChannels := [''C1'', ''C2'']\<rparr>))) ''C2''
   \<and> (SocketRoom ''channel:C1'', ''user_left'', UserLeftPayload ''C1'' None ''u1'')
       \<in> set (emitted (handleDisconnect ''transport close''
        (fresh\<lparr>channelSubscriptions := [(''C1'', {''U1'', ''U2''}), (''C2'', {''U1''})],
               joinedChannels := [''C1'', ''C2'']\<rparr>)))
   \<and> (SocketRoom ''channel:C2'', ''user_left'', UserLeftPayload ''C2'' None ''u1'')
       \<in> set (emitted (handleDisconnect ''transport close''
        (fresh\<lparr>channelSubscriptions := [(''C1'', {''U1'', ''U2''}), (''C2'', {''U1''})],
               joinedChannels := [''C1'', ''C2'']\<rparr>)))"
  using disconnect_unwinds_every_joined_channel
          [of "''transport close''"
              "fresh\<lparr>channelSubscriptions := [(''C1'', {''U1'', ''U2''}), (''C2'', {''U1''})],
                      joinedChannels := [''C1'', ''C2'']\<rparr>"]
  by (simp add: fresh_def channelRoom_def)

lemma disconnect_example_registry:
  "channelSubscriptions (handleDisconnect ''transport close''
        (fresh\<lparr>channelSubscriptions := [(''C1'', {''U1'', ''U2''}), (''C2'', {''U1''})],
               joinedChannels := [''C1'', ''C2'']\<rparr>)) = [(''C1'', {''U2''})]"
  by (simp add: handleDisconnect_def fresh_def unsubscribeFromChannel_def)

lemma getUserChannels_resolves:
  "\<exists>channels. getUserChannels env userId = Inr channels"
  by (simp add: getUserChannels_def split: sum.splits)

lemma getUserChannels_after_throw:
  "collectChannels userId (guilds env) [] = Inl e \<Longrightarrow> getUserChannels env userId = Inr []"
  by (simp add: getUserChannels_def)

lemma settled_acks:
  "acks (handleGetChannels_settled (Inr channels) True s)
     = acks s @ [GetChannelsResponse True None channels]"
  "acks (handleGetChannels_settled (Inl e) True s)
     = acks s @ [GetChannelsResponse False (Some ''Failed to fetch channels'') []]"
  by (simp_all add: handleGetChannels_settled_def invoke_def emit_def)

text \<open>
  C9, as amended. \<open>handleGetChannels\<close> with a callback invokes it exactly once, with
  a result, and \<open>getUserChannels\<close> never rejects. When listing the channels throws,
  the result is \<open>success: true\<close> with an empty channel list; when the handler's
  \<open>catch\<close> block runs, it is \<open>success: false\<close> with an empty channel list. A
  rejected member lookup is not such an error: the guild is skipped and the listing
  goes on with the channels found so far.
\<close>

theorem getChannels_answers_exactly_once:
  "(\<exists>success failure channels.
       acks (handleGetChannels env True s)
         = acks s @ [GetChannelsResponse success failure channels])
   \<and> (\<exists>channels. getUserChannels env (sd_discordId (socketData s)) = Inr channels)
   \<and> (\<forall>e. collectChannels (sd_discordId (socketData s)) (guilds env) [] = Inl e \<longrightarrow>
          acks (handleGetChannels env True s) = acks s @ [GetChannelsResponse True None []])
   \<and> (\<forall>e. acks (handleGetChannels_settled (Inl e) True s)
          = acks s @ [GetChannelsResponse False (Some ''Failed to fetch channels'') []])
   \<and> (\<forall>g rest found e. gd_members_fetch g userId = Inl e \<longrightarrow>
          collectChannels userId (g # rest) found = collectChannels userId rest found)"
proof -
  obtain channels where resolved: "getUserChannels env (sd_discordId (socketData s)) = Inr channels"
    using getUserChannels_resolves by blast
  have once: "acks (handleGetChannels env True s) = acks s @ [GetChannelsResponse True None channels]"
    by (simp add: handleGetChannels_def resolved settled_acks)
  have thrown: "acks (handleGetChannels env True s) = acks s @ [GetChannelsResponse True None []]"
    if "collectChannels (sd_discordId (socketData s)) (guilds env) [] = Inl e" for e
    using getUserChannels_after_throw [OF that]
    by (simp add: handleGetChannels_def settled_acks)
  show ?thesis
    using once resolved thrown by (auto simp: settled_acks)
qed

theorem getChannels_answers_exactly_once_witness:
  "collectChannels ''U1'' unresolved_guilds []
     = Inl (OtherError ''TypeError: Cannot read properties of null'')
   \<and> acks (handleGetChannels (scenario_env\<lparr>guilds := unresolved_guilds\<rparr>) True fresh)
       = [GetChannelsResponse True None []]"
proof -
  have thrown: "collectChannels ''U1'' unresolved_guilds []
     = Inl (OtherError ''TypeError: Cannot read properties of null'')"
    by (simp add: unresolved_guilds_def has_permission_def)
  show ?thesis
    using thrown
          getChannels_answers_exactly_once [of "scenario_env\<lparr>guilds := unresolved_guilds\<rparr>" fresh]
    by (simp add: fresh_def)
qed

text \<open>
  C9 as stated fails: the member lookup of guild \<open>G2\<close> rejects, an upstream error,
  and the callback still receives the channel of guild \<open>G1\<close>, not an empty list.
\<close>

theorem getChannels_rejected_lookup_counterexample:
  "gd_members_fetch (scenario_guilds ! 1) ''U1'' = Inl (OtherError ''Request timed out'')
   \<and> acks (handleGetChannels scenario_env True fresh)
       = [GetChannelsResponse True None
            [\<lparr> cd_id = ''C1'', cd_name = ''general'', cd_type = ''text'', cd_serverId = ''G1'',
               cd_serverName = ''Guild One'', cd_position = 3, cd_unreadCount = 0,
               cd_isActive = False, cd_canRead = True, cd_canWrite = True,
               cd_canManage = False \<rparr>]]"
proof -
  have listed: "getUserChannels scenario_env ''U1''
       = Inr [\<lparr> cd_id = ''C1'', cd_name = ''general'', cd_type = ''text'', cd_serverId = ''G1'',
               cd_serverName = ''Guild One'', cd_position = 3, cd_unreadCount = 0,
               cd_isActive = False, cd_canRead = True, cd_canWrite = True,
               cd_canManage = False \<rparr>]"
    by (simp add: getUserChannels_def scenario_env_def scenario_guilds_def has_permission_def
                  describeChannel_def nullish_number_def)
  have rejected: "gd_members_fetch (scenario_guilds ! 1) ''U1'' = Inl (OtherError ''Request timed out'')"
    by (simp add: scenario_guilds_def)
  have user: "sd_discordId (socketData fresh) = ''U1''" and none: "acks fresh = []"
    by (simp_all add: fresh_def)
  show ?thesis
    using rejected by (simp add: handleGetChannels_def user listed settled_acks none)
qed

end
